theory Spec2Isabelle
  imports Complex_Main "HOL-Library.Sublist"
begin

section \<open>The launcher script bash.py\<close>

text \<open>
  The script reads its own command line, appends everything after the script name to a
  fixed command and hands the list to \<^verbatim>\<open>subprocess.run\<close>. The only effect is that one
  call, so the run of the script is the list of processes it starts.
\<close>

definition EXP_DIR :: string where
  "EXP_DIR = ''exps/DETReg_fine_tune_full_pascal''"

definition PY_ARGS :: "string list \<Rightarrow> string list" where
  "PY_ARGS argv = drop 1 argv"

definition command :: "string list \<Rightarrow> string list" where
  "command argv =
     [''./configs/DETReg_fine_tune_full_pascal.sh'',
      ''--resume'', ''exps/DETReg_fine_tune_full_pascal/checkpoint0099.pth'',
      ''--viz''] @ PY_ARGS argv"

datatype proc_event = SubprocessRun "string list"

definition bash_main :: "string list \<Rightarrow> proc_event list" where
  "bash_main argv = [SubprocessRun (command argv)]"

section \<open>Class names and decimal rendering\<close>

datatype py_error =
    KeyError string
  | NameError string
  | AttributeError string
  | TypeError string
  | UnboundLocalError string
  | IndexError
  | RuntimeError string

text \<open>Python's \<^verbatim>\<open>str\<close> on an integer: decimal digits, a minus sign for negatives.\<close>

function str_nat :: "nat \<Rightarrow> string" where
  "str_nat n = (if n < 10 then [''0123456789'' ! n]
                else str_nat (n div 10) @ [''0123456789'' ! (n mod 10)])"
  by pat_completeness auto
termination
  by (relation "measure (\<lambda>n. n)") auto

definition str_int :: "int \<Rightarrow> string" where
  "str_int i = (if i < 0 then CHR ''-'' # str_nat (nat (- i)) else str_nat (nat i))"

text \<open>The dictionary \<^verbatim>\<open>class_name\<close> that \<^verbatim>\<open>evaluate\<close> and \<^verbatim>\<open>viz\<close> both build.\<close>

definition class_name :: "(string \<times> string) list" where
  "class_name =
     [(''0'', ''N/A''), (''1'', ''aeroplane''), (''2'', ''bicycle''), (''3'', ''bird''),
      (''4'', ''boat''), (''5'', ''bottle''), (''6'', ''bus''), (''7'', ''car''),
      (''8'', ''cat''), (''9'', ''chair''), (''10'', ''cow''), (''11'', ''diningtable''),
      (''12'', ''dog''), (''13'', ''horse''), (''14'', ''motorbike''), (''15'', ''person''),
      (''16'', ''pottedplant''), (''17'', ''sheep''), (''18'', ''sofa''), (''19'', ''train''),
      (''20'', ''tvmonitor'')]"

definition clamp_max :: "int \<Rightarrow> int \<Rightarrow> int" where
  "clamp_max x m = min x m"

text \<open>
  The label tensors and the class indices that \<^verbatim>\<open>max\<close> returns hold 64-bit signed
  integers, and \<^verbatim>\<open>+=\<close> on an entry adds in place: the sum wraps around at the ends of
  the range. An entry is an integer from \<open>- 2 ^ 63\<close> to \<open>2 ^ 63 - 1\<close>.
\<close>

definition wrap_int64 :: "int \<Rightarrow> int" where
  "wrap_int64 x = (x + 2 ^ 63) mod 2 ^ 64 - 2 ^ 63"

definition add_int64 :: "int \<Rightarrow> int \<Rightarrow> int" where
  "add_int64 a b = wrap_int64 (a + b)"

text \<open>
  The labelling loops of \<^verbatim>\<open>plot_result\<close>. Each pass adds one to the entry, clamps it
  to at most 20, writes it back into the tensor and looks the decimal rendering up in the
  dictionary. The tensor is updated in place, so the function returns the tensor as it
  stands when the loop ends or raises, together with the names or the error. The first
  argument holds the entries already rewritten.
\<close>

fun label_loop ::
  "(string \<times> string) list \<Rightarrow> int list \<Rightarrow> int list \<Rightarrow> string list
     \<Rightarrow> int list \<times> (py_error + string list)" where
  "label_loop names seen [] label_list = (seen, Inr label_list)"
| "label_loop names seen (l # rest) label_list =
     (let l' = clamp_max (add_int64 l 1) 20 in
      case map_of names (str_int l') of
        None \<Rightarrow> (seen @ l' # rest, Inl (KeyError (str_int l')))
      | Some nm \<Rightarrow> label_loop names (seen @ [l']) rest (label_list @ [nm]))"

text \<open>
  The branch on \<^verbatim>\<open>prob_true\<close>: without it the loop runs over \<^verbatim>\<open>target_label\<close>, the
  caller's tensor; with it the loop runs over \<^verbatim>\<open>pred_cls\<close>, a tensor made inside
  \<^verbatim>\<open>plot_result\<close>, and the caller's tensor is left alone. The result is the caller's
  tensor afterwards and the names.
\<close>

definition plot_labels ::
  "(string \<times> string) list \<Rightarrow> bool \<Rightarrow> int list \<Rightarrow> int list
     \<Rightarrow> int list \<times> (py_error + string list)" where
  "plot_labels names prob_true pred_cls target_label =
     (if \<not> prob_true then label_loop names [] target_label []
      else (target_label, snd (label_loop names [] pred_cls [])))"

section \<open>Floats, scalar tensors and dictionaries\<close>

text \<open>
  A float is a real number, an infinity or NaN. A scalar tensor is identified with the float
  it holds. The driver itself only tests floats (\<^verbatim>\<open>math.isfinite\<close>, comparisons with a
  constant); the arithmetic on them is the tensor library's and is a parameter below.
\<close>

datatype pyfloat = Fin real | PosInf | NegInf | NaN

fun isfinite :: "pyfloat \<Rightarrow> bool" where
  "isfinite (Fin r) = True"
| "isfinite PosInf = False"
| "isfinite NegInf = False"
| "isfinite NaN = False"

text \<open>The comparison \<^verbatim>\<open>a > b\<close> of two floats: false as soon as one of them is NaN.\<close>

fun fgt :: "pyfloat \<Rightarrow> pyfloat \<Rightarrow> bool" where
  "fgt NaN b = False"
| "fgt a NaN = False"
| "fgt (Fin a) (Fin b) = (b < a)"
| "fgt PosInf b = (b \<noteq> PosInf)"
| "fgt a NegInf = (a \<noteq> NegInf)"
| "fgt a PosInf = False"
| "fgt NegInf b = False"

text \<open>
  A dictionary with string keys, in insertion order. \<^verbatim>\<open>d[k] = v\<close> replaces the value of a
  key already there and appends a new key otherwise.
\<close>

type_synonym 'v dict = "(string \<times> 'v) list"

fun dict_set :: "('k \<times> 'v) list \<Rightarrow> 'k \<Rightarrow> 'v \<Rightarrow> ('k \<times> 'v) list" where
  "dict_set [] k v = [(k, v)]"
| "dict_set ((k', v') # d) k v = (if k' = k then (k, v) # d else (k', v') # dict_set d k v)"

record tensor_ops =
  t_mul :: "pyfloat \<Rightarrow> pyfloat \<Rightarrow> pyfloat"
  t_add :: "pyfloat \<Rightarrow> pyfloat \<Rightarrow> pyfloat"

text \<open>
  Python's \<^verbatim>\<open>sum\<close> starts from the integer 0 and adds the items from the left, so the sum
  of no tensors is the integer 0 and not a tensor.
\<close>

datatype pynum = PyInt int | Tensor pyfloat

definition py_sum :: "tensor_ops \<Rightarrow> pyfloat list \<Rightarrow> pynum" where
  "py_sum ops xs =
     (case xs of [] \<Rightarrow> PyInt 0
      | x # rest \<Rightarrow> Tensor (foldl (t_add ops) (t_add ops (Fin 0) x) rest))"

text \<open>
  \<^verbatim>\<open>{k: v * weight_dict[k] for k, v in d.items() if k in weight_dict}\<close>, which is also the
  sequence of terms of \<^verbatim>\<open>losses\<close>.
\<close>

fun scale_dict :: "tensor_ops \<Rightarrow> pyfloat dict \<Rightarrow> pyfloat dict \<Rightarrow> pyfloat dict" where
  "scale_dict ops weight_dict [] = []"
| "scale_dict ops weight_dict ((k, v) # d) =
     (case map_of weight_dict k of
        None \<Rightarrow> scale_dict ops weight_dict d
      | Some w \<Rightarrow> (k, t_mul ops v w) # scale_dict ops weight_dict d)"

definition unscaled_dict :: "pyfloat dict \<Rightarrow> pyfloat dict" where
  "unscaled_dict d = map (\<lambda>(k, v). (k @ ''_unscaled'', v)) d"

section \<open>The metric logger\<close>

text \<open>
  Modelled from the spec: the classes \<^verbatim>\<open>MetricLogger\<close> and \<^verbatim>\<open>SmoothedValue\<close> of
  \<^verbatim>\<open>util/misc.py\<close> are not among the source files. The logger is a dictionary of named
  meters ("tracked meter name"); \<^verbatim>\<open>add_meter\<close> stores a meter under a name, and
  \<^verbatim>\<open>update\<close> feeds each keyword's value to the meter of that name, which is made on first
  use. What a meter keeps of its values, how it is synchronised and what its global average
  is are parameters.
\<close>

record 'm meter_ops =
  smoothed_value :: "'m"
  meter_update :: "'m \<Rightarrow> pyfloat \<Rightarrow> 'm"
  meter_sync :: "'m \<Rightarrow> 'm"
  global_avg :: "'m \<Rightarrow> pyfloat"

definition add_meter :: "'m dict \<Rightarrow> string \<Rightarrow> 'm \<Rightarrow> 'm dict" where
  "add_meter meters name meter = dict_set meters name meter"

fun logger_update :: "'m meter_ops \<Rightarrow> 'm dict \<Rightarrow> pyfloat dict \<Rightarrow> 'm dict" where
  "logger_update mo meters [] = meters"
| "logger_update mo meters ((k, v) # kwargs) =
     logger_update mo
       (dict_set meters k
          (meter_update mo (case map_of meters k of None \<Rightarrow> smoothed_value mo | Some m \<Rightarrow> m) v))
       kwargs"

section \<open>train_one_epoch\<close>

text \<open>
  The model, the criterion, the optimizer and the prefetcher belong to the framework. A run
  is described by what they gave back at each iteration: one \<open>train_batch\<close> per batch of the
  data loader. The function is then a pure function of these answers; its calls into the
  framework are recorded as a trace.
\<close>

record train_batch =
  n_targets :: nat
  loss_dict :: "pyfloat dict"
  loss_dict_reduced :: "pyfloat dict"
  grad_total_norm :: pyfloat
  lr :: pyfloat

datatype train_event =
    ModelTrain
  | CriterionTrain
  | PrefetcherNew
  | PrefetcherNext
  | ModelForward
  | SwavForward nat
  | CriterionCall
  | ReduceDict
  | PrintLossStop pyfloat
  | PrintDict "pyfloat dict"
  | SysExit int
  | ZeroGrad
  | Backward
  | ClipGradNorm pyfloat
  | GetTotalGradNorm pyfloat
  | OptimizerStep
  | Synchronize
  | PrintStats

text \<open>
  The ways a function is left other than by its \<^verbatim>\<open>return\<close>: \<^verbatim>\<open>sys.exit\<close> with a
  status, or an exception. A result is \<open>Inl\<close> of one of them or \<open>Inr\<close> of the value.
\<close>

datatype stop = Exited int | Raised py_error

text \<open>The calls from the forward pass to the criterion, the optional SwAV pass between.\<close>

definition forward_events :: "bool \<Rightarrow> train_batch \<Rightarrow> train_event list" where
  "forward_events swav b =
     [ModelForward]
     @ (if swav then map SwavForward [0..<n_targets b] else [])
     @ [CriterionCall]"

definition losses :: "tensor_ops \<Rightarrow> pyfloat dict \<Rightarrow> train_batch \<Rightarrow> pynum" where
  "losses ops weight_dict b = py_sum ops (map snd (scale_dict ops weight_dict (loss_dict b)))"

definition losses_reduced_scaled :: "tensor_ops \<Rightarrow> pyfloat dict \<Rightarrow> train_batch \<Rightarrow> pynum" where
  "losses_reduced_scaled ops weight_dict b =
     py_sum ops (map snd (scale_dict ops weight_dict (loss_dict_reduced b)))"

text \<open>The keywords of the first \<^verbatim>\<open>metric_logger.update\<close> call of a pass.\<close>

definition update_kwargs :: "tensor_ops \<Rightarrow> pyfloat dict \<Rightarrow> train_batch \<Rightarrow> pyfloat \<Rightarrow> pyfloat dict" where
  "update_kwargs ops weight_dict b loss_value =
     (''loss'', loss_value)
     # scale_dict ops weight_dict (loss_dict_reduced b)
     @ unscaled_dict (loss_dict_reduced b)"

definition grad_norm_event :: "pyfloat \<Rightarrow> train_event" where
  "grad_norm_event max_norm =
     (if fgt max_norm (Fin 0) then ClipGradNorm max_norm else GetTotalGradNorm max_norm)"

text \<open>
  One pass of the loop body. \<open>Inr\<close> carries the logger on to the next pass; \<open>Inl\<close> is the
  way the pass left the function. The integer 0 that an empty sum gives has neither
  \<^verbatim>\<open>item\<close> nor \<^verbatim>\<open>backward\<close>; a keyword given twice to \<^verbatim>\<open>update\<close> and a missing
  \<^verbatim>\<open>'class_error'\<close> raise as well.
\<close>

definition train_iteration ::
  "tensor_ops \<Rightarrow> 'm meter_ops \<Rightarrow> pyfloat dict \<Rightarrow> bool \<Rightarrow> pyfloat \<Rightarrow> train_batch \<Rightarrow> 'm dict
     \<Rightarrow> train_event list \<times> (stop + 'm dict)" where
  "train_iteration ops mo weight_dict swav max_norm b meters =
     (let fwd = forward_events swav b;
          reduced = loss_dict_reduced b
      in case losses_reduced_scaled ops weight_dict b of
           PyInt z \<Rightarrow> (fwd @ [ReduceDict], Inl (Raised (AttributeError ''item'')))
         | Tensor loss_value \<Rightarrow>
             if \<not> isfinite loss_value then
               (fwd @ [ReduceDict, PrintLossStop loss_value, PrintDict reduced, SysExit 1],
                Inl (Exited 1))
             else
               (case losses ops weight_dict b of
                  PyInt z \<Rightarrow>
                    (fwd @ [ReduceDict, ZeroGrad], Inl (Raised (AttributeError ''backward'')))
                | Tensor l \<Rightarrow>
                    let ev = fwd @ [ReduceDict, ZeroGrad, Backward, grad_norm_event max_norm,
                                   OptimizerStep];
                        kwargs = update_kwargs ops weight_dict b loss_value
                    in if \<not> distinct (map fst kwargs) then
                         (ev, Inl (Raised (TypeError ''update'')))
                       else
                         (case map_of reduced ''class_error'' of
                            None \<Rightarrow> (ev, Inl (Raised (KeyError ''class_error'')))
                          | Some ce \<Rightarrow>
                              (ev @ [PrefetcherNext],
                               Inr (logger_update mo
                                     (logger_update mo
                                       (logger_update mo
                                         (logger_update mo meters kwargs)
                                         [(''class_error'', ce)])
                                       [(''lr'', lr b)])
                                     [(''grad_norm'', grad_total_norm b)])))))"

text \<open>
  The loop \<^verbatim>\<open>for _ in metric_logger.log_every(range(len(data_loader)), ...)\<close>: one pass
  per batch, in order, until a pass leaves the function.
\<close>

fun train_loop ::
  "tensor_ops \<Rightarrow> 'm meter_ops \<Rightarrow> pyfloat dict \<Rightarrow> bool \<Rightarrow> pyfloat \<Rightarrow> train_batch list \<Rightarrow> 'm dict
     \<Rightarrow> train_event list \<times> (stop + 'm dict)" where
  "train_loop ops mo weight_dict swav max_norm [] meters = ([], Inr meters)"
| "train_loop ops mo weight_dict swav max_norm (b # bs) meters =
     (case train_iteration ops mo weight_dict swav max_norm b meters of
        (ev, Inl out) \<Rightarrow> (ev, Inl out)
      | (ev, Inr meters') \<Rightarrow>
          (case train_loop ops mo weight_dict swav max_norm bs meters' of
             (ev', r) \<Rightarrow> (ev @ ev', r)))"

text \<open>
  The whole function: the trace of its calls and the way it ends. The returned dictionary
  is \<^verbatim>\<open>{k: meter.global_avg for k, meter in metric_logger.meters.items()}\<close> after the
  meters have been synchronised.
\<close>

definition initial_meters :: "'m meter_ops \<Rightarrow> 'm dict" where
  "initial_meters mo =
     add_meter
       (add_meter (add_meter [] ''lr'' (smoothed_value mo))
          ''class_error'' (smoothed_value mo))
       ''grad_norm'' (smoothed_value mo)"

definition train_one_epoch ::
  "tensor_ops \<Rightarrow> 'm meter_ops \<Rightarrow> pyfloat dict \<Rightarrow> bool \<Rightarrow> pyfloat \<Rightarrow> train_batch list
     \<Rightarrow> train_event list \<times> (stop + pyfloat dict)" where
  "train_one_epoch ops mo weight_dict swav max_norm data_loader =
     (let start = [ModelTrain, CriterionTrain, PrefetcherNew, PrefetcherNext]
      in case train_loop ops mo weight_dict swav max_norm data_loader (initial_meters mo) of
           (ev, Inl out) \<Rightarrow> (start @ ev, Inl out)
         | (ev, Inr meters) \<Rightarrow>
             (start @ ev @ [Synchronize, PrintStats],
              Inr (map (\<lambda>(k, m). (k, global_avg mo (meter_sync mo m))) meters)))"



subsection \<open>Sample runs\<close>

text \<open>
  A tensor library that computes exactly on finite values, a meter that keeps the values it
  was fed and averages them, and two batches: one with finite losses, one whose
  classification loss is NaN.
\<close>

definition exact_ops :: tensor_ops where
  "exact_ops =
     \<lparr>t_mul = (\<lambda>a b. case (a, b) of (Fin x, Fin y) \<Rightarrow> Fin (x * y) | _ \<Rightarrow> NaN),
      t_add = (\<lambda>a b. case (a, b) of (Fin x, Fin y) \<Rightarrow> Fin (x + y) | _ \<Rightarrow> NaN)\<rparr>"

definition list_meter :: "pyfloat list meter_ops" where
  "list_meter =
     \<lparr>smoothed_value = [],
      meter_update = (\<lambda>m v. m @ [v]),
      meter_sync = (\<lambda>m. m),
      global_avg = (\<lambda>m. foldl (t_add exact_ops) (Fin 0) m)\<rparr>"

definition sample_weights :: "pyfloat dict" where
  "sample_weights = [(''loss_ce'', Fin 2)]"

definition finite_batch :: train_batch where
  "finite_batch =
     \<lparr>n_targets = 2,
      loss_dict = [(''loss_ce'', Fin 1), (''class_error'', Fin 50)],
      loss_dict_reduced = [(''loss_ce'', Fin 1), (''class_error'', Fin 50)],
      grad_total_norm = Fin 3,
      lr = Fin 1\<rparr>"

definition nan_batch :: train_batch where
  "nan_batch =
     \<lparr>n_targets = 2,
      loss_dict = [(''loss_ce'', NaN), (''class_error'', Fin 50)],
      loss_dict_reduced = [(''loss_ce'', NaN), (''class_error'', Fin 50)],
      grad_total_norm = Fin 3,
      lr = Fin 1\<rparr>"

section \<open>evaluate and viz\<close>

text \<open>
  Both functions walk over the data loader and, for each batch, look at the first image
  only. What the framework hands over per batch is: the targets of the images, the rows of
  the model output for the first image, the loss dictionaries and the results of the
  postprocessors. A row is described by the three
  values the code takes from it: the softmax probability of class 1, the largest softmax
  probability among all classes but the last with the class where it is reached, and the
  box. Box coordinates and postprocessor results are opaque.
\<close>

record 'b target =
  image_id :: int
  boxes :: "'b list"
  labels :: "int list"

record 'b query =
  class1_prob :: pyfloat
  max_prob :: pyfloat
  max_cls :: nat
  pred_box :: 'b

record ('b, 'r) batch =
  targets :: "'b target list"
  queries :: "'b query list"
  eval_loss_dict :: "pyfloat dict"
  eval_loss_dict_reduced :: "pyfloat dict"
  results :: "'r list"

datatype apval = ApInt int | ApFloat pyfloat

datatype ('b, 'r) eval_event =
    ModelEval
  | CriterionEval
  | NewCocoEvaluator "string list"
  | NewVocEvaluator "string list"
  | NewPanopticEvaluator string
  | TorchLoad string
  | CallModel
  | Gca
  | WriteApFile string pyfloat
  | PrintAP int apval
  | Imshow
  | AddPatch 'b string nat
  | AxText 'b bool string string
  | SetAspectEqual
  | SetAxisOff
  | Savefig string
  | Clf
  | EvalCriterion
  | EvalReduceDict
  | Postprocess string
  | Makedirs string
  | TorchSave string
  | EvaluatorUpdate "(int \<times> 'r) list"
  | PanopticUpdate "int list"

text \<open>
  A step of a loop body gives the calls it made and, when it raised, the exception. Steps
  run in order up to the first that raises.
\<close>

type_synonym ('b, 'r) step = "('b, 'r) eval_event list \<times> py_error option"

fun run_steps :: "('b, 'r) step list \<Rightarrow> ('b, 'r) step" where
  "run_steps [] = ([], None)"
| "run_steps ((ev, Some e) # rest) = (ev, Some e)"
| "run_steps ((ev, None) # rest) = (case run_steps rest of (ev', r) \<Rightarrow> (ev @ ev', r))"

text \<open>The test \<^verbatim>\<open>sub in s\<close> on strings, and \<^verbatim>\<open>os.path.join\<close> of two parts.\<close>

fun str_contains :: "string \<Rightarrow> string \<Rightarrow> bool" where
  "str_contains [] sub = (sub = [])"
| "str_contains (c # cs) sub = (prefix sub (c # cs) \<or> str_contains cs sub)"

definition os_path_join :: "string \<Rightarrow> string \<Rightarrow> string" where
  "os_path_join a b =
     (if prefix ''/'' b then b
      else if a = [] \<or> suffix ''/'' a then a @ b
      else a @ ''/'' @ b)"

definition img_name :: "int \<Rightarrow> string" where
  "img_name i = ''img_'' @ str_int i @ ''.jpg''"

text \<open>
  \<^verbatim>\<open>softmax(-1)[..., 1].sort(descending=True)[1]\<close>: the indices of the rows in the order
  of descending class-1 probability. A larger key sorts before a smaller one and NaN sorts
  before every number. The order among rows with equal keys, which the library leaves open,
  is the order of their indices here.
\<close>

fun sorts_before :: "pyfloat \<Rightarrow> pyfloat \<Rightarrow> bool" where
  "sorts_before NaN NaN = False"
| "sorts_before NaN b = True"
| "sorts_before a NaN = False"
| "sorts_before a b = fgt a b"

fun insert_descending :: "pyfloat \<times> nat \<Rightarrow> (pyfloat \<times> nat) list \<Rightarrow> (pyfloat \<times> nat) list" where
  "insert_descending x [] = [x]"
| "insert_descending x (y # ys) =
     (if sorts_before (fst y) (fst x) then y # insert_descending x ys else x # y # ys)"

definition argsort_descending :: "pyfloat list \<Rightarrow> nat list" where
  "argsort_descending keys =
     map snd (foldr insert_descending (zip keys [0..<length keys]) [])"

definition class1_order :: "('b, 'r) batch \<Rightarrow> nat list" where
  "class1_order b = argsort_descending (map class1_prob (queries b))"

text \<open>
  The rows chosen for the first image: the first \<open>top_k\<close> entries of the index tensor, the
  row at each, stacked. \<^verbatim>\<open>torch.stack\<close> refuses an empty list.
\<close>

definition select_top :: "nat \<Rightarrow> nat list \<Rightarrow> 'a list \<Rightarrow> py_error + 'a list" where
  "select_top top_k order rows =
     (let indices = take top_k order
      in if \<not> list_all (\<lambda>i. i < length rows) indices then Inl IndexError
         else if indices = [] then Inl (RuntimeError ''stack expects a non-empty TensorList'')
         else Inr (map (\<lambda>i. rows ! i) indices))"

subsection \<open>The average precision printed by evaluate\<close>

text \<open>
  The numerical work is done by NumPy and scikit-learn and is a parameter: sorting scores
  in descending order, dividing one count by another, the 101 thresholds of
  \<^verbatim>\<open>np.linspace(0, 1, 101)\<close>, \<^verbatim>\<open>average_precision_score\<close>, and the mean
  \<^verbatim>\<open>sum(aps) / len(aps)\<close>.
\<close>

record np_ops =
  np_sort_descending :: "pyfloat list \<Rightarrow> pyfloat list"
  np_true_divide :: "nat \<Rightarrow> nat \<Rightarrow> pyfloat"
  np_linspace :: "pyfloat list"
  np_average_precision_score :: "bool list \<Rightarrow> pyfloat list \<Rightarrow> pyfloat"
  np_mean :: "pyfloat list \<Rightarrow> pyfloat"

fun cumsum :: "nat \<Rightarrow> bool list \<Rightarrow> nat list" where
  "cumsum acc [] = []"
| "cumsum acc (x # xs) = (acc + (if x then 1 else 0)) # cumsum (acc + (if x then 1 else 0)) xs"

definition precision :: "np_ops \<Rightarrow> bool list \<Rightarrow> pyfloat list" where
  "precision np true_positives =
     map (\<lambda>(c, n). np_true_divide np c n)
       (zip (cumsum 0 true_positives) [1..<Suc (length true_positives)])"

definition ap_at :: "np_ops \<Rightarrow> pyfloat list \<Rightarrow> pyfloat \<Rightarrow> pyfloat" where
  "ap_at np cls_pred_np threshold =
     (let true_positives = map (\<lambda>s. fgt s threshold) cls_pred_np
      in np_average_precision_score np true_positives (precision np true_positives))"

definition image_filenames :: "string list" where
  "image_filenames =
     [''img_2021000247.jpg'', ''img_2021000706.jpg'', ''img_2021001070.jpg'',
      ''img_2021003055.jpg'', ''img_2021007554.jpg'', ''img_2021008746.jpg'']"

text \<open>
  The body of the loop over \<^verbatim>\<open>ind\<close> for the scores \<^verbatim>\<open>cls_pred\<close> of one class: the
  value \<^verbatim>\<open>ap\<close> that is printed, and the line written to \<^verbatim>\<open>./ap.txt\<close> on the way.
\<close>

definition class_ap ::
  "np_ops \<Rightarrow> string \<Rightarrow> pyfloat list \<Rightarrow> ('b, 'r) eval_event list \<times> apval" where
  "class_ap np name cls_pred =
     (if length cls_pred \<noteq> 0 then
        let cls_pred_np = np_sort_descending np cls_pred;
            ap = ap_at np cls_pred_np (Fin (1 / 2));
            written = (if name \<in> set image_filenames then [WriteApFile name ap] else []);
            aps = map (ap_at np cls_pred_np) (np_linspace np)
        in (written, ApFloat (np_mean np aps))
      else ([], ApInt 0))"

text \<open>
  \<^verbatim>\<open>for ind in range(len(gt_cls.unique()))\<close>: the class of a pass is
  \<^verbatim>\<open>gt_cls[ind]\<close>, the label at position \<^verbatim>\<open>ind\<close> of the label tensor itself. \<open>kept\<close>
  holds the score and class of the rows whose score exceeds 0.01.
\<close>

definition measure_ap ::
  "np_ops \<Rightarrow> string \<Rightarrow> (pyfloat \<times> nat) list \<Rightarrow> int list \<Rightarrow> ('b, 'r) eval_event list" where
  "measure_ap np name kept gt_cls =
     concat (map (\<lambda>ind.
        let cls_num = gt_cls ! ind;
            cls_pred = map fst (filter (\<lambda>(v, i). int i = cls_num) kept)
        in case class_ap np name cls_pred of
             (written, ap) \<Rightarrow> written @ [PrintAP cls_num ap])
       [0..<length (remdups gt_cls)])"

definition kept_scores :: "'b query list \<Rightarrow> (pyfloat \<times> nat) list" where
  "kept_scores rows =
     map (\<lambda>q. (max_prob q, max_cls q)) (filter (\<lambda>q. fgt (max_prob q) (Fin (1 / 100))) rows)"

subsection \<open>plot_result\<close>

text \<open>
  A box is drawn when the largest probability of its row, the last class left out, exceeds
  0.01. The names are looked up before anything is drawn. The result is the calls on the
  axes, the caller's label tensor afterwards, and the exception if one was raised.
\<close>

definition plot_result ::
  "(pyfloat \<times> nat \<times> 'b) list \<Rightarrow> string \<Rightarrow> bool \<Rightarrow> (string \<times> string) list \<Rightarrow> int list
     \<Rightarrow> ('b, 'r) eval_event list \<times> int list \<times> py_error option" where
  "plot_result rows c prob_true names target_label =
     (let kept = filter (\<lambda>(p, cls, b). fgt p (Fin (1 / 100))) rows;
          pred_cls = map (\<lambda>(p, cls, b). int cls) kept
      in case plot_labels names prob_true pred_cls target_label of
           (target_label', Inl e) \<Rightarrow> ([], target_label', Some e)
         | (target_label', Inr label_list) \<Rightarrow>
             (Imshow # concat (map (\<lambda>((p, cls, b), label).
                  [AddPatch b c 2,
                   AxText b prob_true label (if prob_true then ''g'' else ''r'')])
                (zip kept label_list)),
              target_label', None))"

subsection \<open>viz\<close>

text \<open>
  The ground-truth boxes are drawn with logits that are all zero over four classes, so every
  row has probability one quarter in each class, and class 0 is where the largest is found.
\<close>

definition gt_rows :: "'b list \<Rightarrow> (pyfloat \<times> nat \<times> 'b) list" where
  "gt_rows bs = map (\<lambda>b. (Fin (1 / 4), 0, b)) bs"

definition pred_rows :: "'b query list \<Rightarrow> (pyfloat \<times> nat \<times> 'b) list" where
  "pred_rows rows = map (\<lambda>q. (max_prob q, max_cls q, pred_box q)) rows"

definition viz_batch :: "string \<Rightarrow> ('b, 'r) batch \<Rightarrow> ('b, 'r) step" where
  "viz_batch output_dir b =
     (case targets b of
        [] \<Rightarrow> ([], Some IndexError)
      | t0 # ts \<Rightarrow>
          (case select_top (length (boxes t0)) (class1_order b) (queries b) of
             Inl e \<Rightarrow> ([CallModel], Some e)
           | Inr rows \<Rightarrow>
               (case plot_result (pred_rows rows) ''g'' True class_name (labels t0) of
                  (ev1, labels1, r1) \<Rightarrow>
                    (case plot_result (gt_rows (boxes t0)) ''r'' False class_name labels1 of
                       (ev2, labels2, r2) \<Rightarrow>
                         run_steps
                           [([CallModel, Gca], None),
                            (ev1, r1),
                            (ev2, r2),
                            ([SetAspectEqual, SetAxisOff,
                              Savefig (os_path_join output_dir (img_name (image_id t0))),
                              Clf], None)]))))"

fun batch_loop :: "(('b, 'r) batch \<Rightarrow> ('b, 'r) step) \<Rightarrow> ('b, 'r) batch list \<Rightarrow> ('b, 'r) step" where
  "batch_loop body [] = ([], None)"
| "batch_loop body (b # bs) = run_steps [body b, batch_loop body bs]"

definition viz :: "string \<Rightarrow> ('b, 'r) batch list \<Rightarrow> ('b, 'r) step" where
  "viz output_dir data_loader =
     (let output_dir = ''vis''
      in run_steps [([ModelEval, CriterionEval], None), batch_loop (viz_batch output_dir) data_loader])"

subsection \<open>evaluate\<close>

record eval_config =
  postprocessors :: "string list"
  base_ds_type :: string

text \<open>
  The two branches on the name of the output directory: loading saved detections in place
  of running the model, and saving the detections of the batch.
\<close>

definition load_detections :: "string \<Rightarrow> 'b target list \<Rightarrow> ('b, 'r) step" where
  "load_detections output_dir ts =
     (if str_contains output_dir ''loaddet''
      then (map (\<lambda>t. TorchLoad (str_int (image_id t) @ ''.pt'')) ts, None)
      else ([], None))"

definition save_detections :: "string \<Rightarrow> 'b target list \<Rightarrow> ('b, 'r) step" where
  "save_detections output_dir ts =
     (if str_contains output_dir ''savedet''
      then (Makedirs output_dir
              # map (\<lambda>t. TorchSave (os_path_join output_dir (str_int (image_id t) @ ''.pt''))) ts,
            None)
      else ([], None))"

text \<open>
  The losses of the batch go to the metric logger, whose meters \<^verbatim>\<open>evaluate\<close> never reads
  afterwards; what is kept of this step is what can raise: a keyword given twice and the
  missing key \<^verbatim>\<open>'class_error'\<close>.
\<close>

definition log_losses :: "tensor_ops \<Rightarrow> pyfloat dict \<Rightarrow> ('b, 'r) batch \<Rightarrow> ('b, 'r) step" where
  "log_losses ops weight_dict b =
     (let reduced = eval_loss_dict_reduced b;
          keys = ''loss'' # map fst (scale_dict ops weight_dict reduced)
                   @ map fst (unscaled_dict reduced)
      in if \<not> distinct keys then ([EvalCriterion, EvalReduceDict], Some (TypeError ''update''))
         else if map_of reduced ''class_error'' = None
         then ([EvalCriterion, EvalReduceDict], Some (KeyError ''class_error''))
         else ([EvalCriterion, EvalReduceDict], None))"

text \<open>
  \<^verbatim>\<open>{target['image_id'].item(): output for target, output in zip(targets, results)}\<close>: a
  later image with the same number replaces the earlier entry.
\<close>

definition res_dict :: "'b target list \<Rightarrow> 'r list \<Rightarrow> (int \<times> 'r) list" where
  "res_dict ts rs = foldl (\<lambda>d (t, r). dict_set d (image_id t) r) [] (zip ts rs)"

definition postprocess_bbox :: "eval_config \<Rightarrow> ('b, 'r) step" where
  "postprocess_bbox cfg =
     (if ''bbox'' \<in> set (postprocessors cfg) then ([Postprocess ''bbox''], None)
      else ([], Some (KeyError ''bbox'')))"

definition postprocess_segm :: "eval_config \<Rightarrow> ('b, 'r) step" where
  "postprocess_segm cfg =
     (if ''segm'' \<in> set (postprocessors cfg) then ([Postprocess ''segm''], None)
      else ([], None))"

text \<open>
  The panoptic step reads \<^verbatim>\<open>target_sizes\<close>, which is assigned only in the
  \<^verbatim>\<open>'segm'\<close> branch.
\<close>

definition panoptic_update :: "eval_config \<Rightarrow> 'b target list \<Rightarrow> ('b, 'r) step" where
  "panoptic_update cfg ts =
     (if ''panoptic'' \<in> set (postprocessors cfg) then
        (if ''segm'' \<in> set (postprocessors cfg)
         then ([Postprocess ''panoptic'', PanopticUpdate (map image_id ts)], None)
         else ([], Some (UnboundLocalError ''target_sizes'')))
      else ([], None))"

definition evaluate_batch ::
  "np_ops \<Rightarrow> tensor_ops \<Rightarrow> pyfloat dict \<Rightarrow> eval_config \<Rightarrow> string \<Rightarrow> ('b, 'r) batch
     \<Rightarrow> ('b, 'r) step" where
  "evaluate_batch np ops weight_dict cfg output_dir b =
     (case targets b of
        [] \<Rightarrow> ([], Some IndexError)
      | t0 # ts \<Rightarrow>
          (let name = img_name (image_id t0);
               top_k = 10
           in run_steps
                [load_detections output_dir (targets b),
                 ([CallModel], None),
                 (case select_top top_k (class1_order b) (queries b) of
                    Inl e \<Rightarrow> ([], Some e)
                  | Inr rows \<Rightarrow>
                      (Gca # measure_ap np name (kept_scores rows) (labels t0), None)),
                 ([SetAspectEqual, SetAxisOff,
                   Savefig (os_path_join output_dir (img_name (image_id t0))), Clf], None),
                 log_losses ops weight_dict b,
                 postprocess_bbox cfg,
                 save_detections output_dir (targets b),
                 postprocess_segm cfg,
                 ([EvaluatorUpdate (res_dict (targets b) (results b))], None),
                 panoptic_update cfg (targets b)]))"

text \<open>
  Name lookup at the \<^verbatim>\<open>return\<close>. A name that the body of a function binds somewhere is
  local to it; any other name is looked up among the names of the module (Python's builtins,
  which come last, have no \<^verbatim>\<open>stats\<close>). \<open>evaluate_locals\<close> are the parameters of
  \<^verbatim>\<open>evaluate\<close> and the targets of its assignments, loops, imports and \<^verbatim>\<open>with\<close>;
  \<open>engine_globals\<close> are the names the module binds by its imports and definitions.
\<close>

definition evaluate_locals :: "string list" where
  "evaluate_locals =
     [''model'', ''criterion'', ''postprocessors'', ''data_loader'', ''base_ds'', ''device'',
      ''output_dir'', ''class_name'', ''metric_logger'', ''header'', ''iou_types'',
      ''coco_evaluator'', ''panoptic_evaluator'', ''samples'', ''targets'',
      ''image_filenames'', ''name'', ''outputs'', ''i'', ''target'', ''image_id'', ''loaded'',
      ''top_k'', ''indices'', ''predictied_boxes'', ''logits'', ''ax'', ''image'', ''boxes'',
      ''probas'', ''values'', ''keep'', ''gts'', ''gt_cls'', ''average_precision_score'',
      ''ind'', ''cls_num'', ''cls_pred'', ''cls_gt_box'', ''cls_pred_np'', ''cls_gt_box_np'',
      ''sort_indices'', ''true_positives'', ''precision'', ''recall'', ''ap'', ''file'',
      ''aps'', ''thresholds'', ''threshold'', ''loss_dict'', ''weight_dict'',
      ''loss_dict_reduced'', ''loss_dict_reduced_scaled'', ''loss_dict_reduced_unscaled'',
      ''orig_target_sizes'', ''results'', ''pred_logits'', ''pred_boxes'', ''img_h'',
      ''img_w'', ''pred_boxes_'', ''target_sizes'', ''res'', ''res_pano'', ''file_name'']"

definition engine_globals :: "string list" where
  "engine_globals =
     [''__name__'', ''__doc__'', ''__file__'', ''__builtins__'',
      ''math'', ''os'', ''sys'', ''Iterable'', ''random'', ''np'', ''bbv'', ''cv2'',
      ''argparse'', ''Image'', ''ImageDraw'', ''transforms'', ''matplotlib'', ''torch'',
      ''utils'', ''CocoEvaluator'', ''VocEvaluator'', ''PanopticEvaluator'',
      ''data_prefetcher'', ''selective_search'', ''box_xyxy_to_cxcywh'',
      ''box_cxcywh_to_xyxy'', ''plot_prediction'', ''plt'', ''train_one_epoch'', ''evaluate'',
      ''plot_results'', ''plot_image'', ''plot_result'', ''viz'', ''get_ss_res'']"

datatype name_ref = LocalName string | GlobalName string

definition load_name :: "string list \<Rightarrow> string list \<Rightarrow> string \<Rightarrow> py_error + name_ref" where
  "load_name locals globals n =
     (if n \<in> set locals then Inr (LocalName n)
      else if n \<in> set globals then Inr (GlobalName n)
      else Inl (NameError n))"

datatype evaluator = CocoEvaluator | VocEvaluator

definition iou_types :: "eval_config \<Rightarrow> string list" where
  "iou_types cfg = filter (\<lambda>k. k \<in> set (postprocessors cfg)) [''segm'', ''bbox'']"

definition coco_evaluator :: "eval_config \<Rightarrow> evaluator" where
  "coco_evaluator cfg =
     (if str_contains (base_ds_type cfg) ''COCO'' then CocoEvaluator else VocEvaluator)"

text \<open>
  The whole function: the trace and either the way it was left or the pair it returns,
  the object bound to \<^verbatim>\<open>stats\<close> and the evaluator.
\<close>

definition evaluate ::
  "np_ops \<Rightarrow> tensor_ops \<Rightarrow> pyfloat dict \<Rightarrow> eval_config \<Rightarrow> string \<Rightarrow> ('b, 'r) batch list
     \<Rightarrow> ('b, 'r) eval_event list \<times> (stop + name_ref \<times> evaluator)" where
  "evaluate np ops weight_dict cfg output_dir data_loader =
     (let output_dir = ''vis'';
          start =
            [ModelEval, CriterionEval,
             (case coco_evaluator cfg of
                CocoEvaluator \<Rightarrow> NewCocoEvaluator (iou_types cfg)
              | VocEvaluator \<Rightarrow> NewVocEvaluator (iou_types cfg))]
            @ (if ''panoptic'' \<in> set (postprocessors cfg)
               then [NewPanopticEvaluator (os_path_join output_dir ''panoptic_eval'')]
               else [])
      in case batch_loop (evaluate_batch np ops weight_dict cfg output_dir) data_loader of
           (ev, Some e) \<Rightarrow> (start @ ev, Inl (Raised e))
         | (ev, None) \<Rightarrow>
             (case load_name evaluate_locals engine_globals ''stats'' of
                Inl e \<Rightarrow> (start @ ev, Inl (Raised e))
              | Inr stats \<Rightarrow> (start @ ev, Inr (stats, coco_evaluator cfg))))"


subsection \<open>Kinds of calls in a trace\<close>

fun is_detection_io :: "('b, 'r) eval_event \<Rightarrow> bool" where
  "is_detection_io (TorchLoad f) = True"
| "is_detection_io (TorchSave f) = True"
| "is_detection_io (Makedirs d) = True"
| "is_detection_io e = False"


fun is_print_ap :: "('b, 'r) eval_event \<Rightarrow> bool" where
  "is_print_ap (PrintAP c ap) = True"
| "is_print_ap e = False"

fun is_own_metric :: "('b, 'r) eval_event \<Rightarrow> bool" where
  "is_own_metric (PrintAP c ap) = True"
| "is_own_metric (WriteApFile n ap) = True"
| "is_own_metric e = False"


subsection \<open>Sample batches\<close>

text \<open>
  A NumPy that computes on exact values where the code only needs counts: scores are left
  in the order given (the samples give them sorted), quotients are exact, the thresholds are
  0, 0.01, ..., 1, the average precision of a ranking is taken as the mean of its
  precisions, and the mean of no values is NaN.
\<close>

definition exact_mean :: "pyfloat list \<Rightarrow> pyfloat" where
  "exact_mean xs =
     (if xs = [] then NaN
      else t_mul exact_ops (foldl (t_add exact_ops) (Fin 0) xs) (Fin (1 / real (length xs))))"

definition exact_np :: np_ops where
  "exact_np =
     \<lparr>np_sort_descending = (\<lambda>xs. xs),
      np_true_divide = (\<lambda>c n. Fin (real c / real n)),
      np_linspace = map (\<lambda>k. Fin (real k / 100)) [0..<101],
      np_average_precision_score = (\<lambda>tp prec. exact_mean prec),
      np_mean = exact_mean\<rparr>"

definition voc_config :: eval_config where
  "voc_config = \<lparr>postprocessors = [''bbox''], base_ds_type = ''VOCDetection''\<rparr>"

text \<open>
  Two rows of a model output: one that is confident of class 7, and one whose probability
  mass is almost all on the last class.
\<close>

definition confident_query :: "nat query" where
  "confident_query =
     \<lparr>class1_prob = Fin (1 / 2), max_prob = Fin (3 / 4), max_cls = 7, pred_box = 11\<rparr>"

definition background_query :: "nat query" where
  "background_query =
     \<lparr>class1_prob = Fin (1 / 4096), max_prob = Fin (1 / 1024), max_cls = 0, pred_box = 12\<rparr>"

text \<open>
  An image with three objects, two of class 5 and one of class 7, and an image with one
  object of class 7; a batch for the first, and two batches for the second, one where the
  model finds the object and one where its only row is background.
\<close>

definition three_objects :: "nat target" where
  "three_objects = \<lparr>image_id = 42, boxes = [1, 2, 3], labels = [5, 5, 7]\<rparr>"

definition one_object :: "nat target" where
  "one_object = \<lparr>image_id = 7, boxes = [1], labels = [7]\<rparr>"

definition sample_batch :: "(nat, nat) batch" where
  "sample_batch =
     \<lparr>targets = [three_objects],
      queries = [background_query, confident_query],
      eval_loss_dict = [(''loss_ce'', Fin 1), (''class_error'', Fin 50)],
      eval_loss_dict_reduced = [(''loss_ce'', Fin 1), (''class_error'', Fin 50)],
      results = [100]\<rparr>"

definition matched_batch :: "(nat, nat) batch" where
  "matched_batch =
     \<lparr>targets = [one_object],
      queries = [confident_query],
      eval_loss_dict = [(''loss_ce'', Fin 1), (''class_error'', Fin 50)],
      eval_loss_dict_reduced = [(''loss_ce'', Fin 1), (''class_error'', Fin 50)],
      results = [100]\<rparr>"

definition background_batch :: "(nat, nat) batch" where
  "background_batch =
     \<lparr>targets = [one_object],
      queries = [background_query],
      eval_loss_dict = [(''loss_ce'', Fin 1), (''class_error'', Fin 50)],
      eval_loss_dict_reduced = [(''loss_ce'', Fin 1), (''class_error'', Fin 50)],
      results = [100]\<rparr>"

section \<open>Properties\<close>

lemma str_nat_small: "n < 10 \<Longrightarrow> str_nat n = [''0123456789'' ! n]"
  by simp

lemma str_nat_two: "10 \<le> n \<Longrightarrow> n < 100 \<Longrightarrow>
    str_nat n = [''0123456789'' ! (n div 10), ''0123456789'' ! (n mod 10)]"
  by (subst str_nat.simps) (simp add: less_mult_imp_div_less)

subsection \<open>bash.py\<close>

text \<open>
  C9. Running the script starts exactly one process: the shell script
  \<^verbatim>\<open>./configs/DETReg_fine_tune_full_pascal.sh\<close> with the fixed arguments
  \<^verbatim>\<open>--resume\<close>, the checkpoint path and \<^verbatim>\<open>--viz\<close>, followed by the script's own
  command-line arguments (everything after the script name), unchanged and in order.
\<close>

theorem bash_passes_arguments_through:
  "bash_main (script # args) =
     [SubprocessRun
        ([''./configs/DETReg_fine_tune_full_pascal.sh'', ''--resume'',
          ''exps/DETReg_fine_tune_full_pascal/checkpoint0099.pth'', ''--viz''] @ args)]
   \<and> take 4 (command (script # args)) =
        [''./configs/DETReg_fine_tune_full_pascal.sh'', ''--resume'',
         ''exps/DETReg_fine_tune_full_pascal/checkpoint0099.pth'', ''--viz'']
   \<and> drop 4 (command (script # args)) = args
   \<and> length (command (script # args)) = 4 + length args"
  by (simp add: bash_main_def command_def PY_ARGS_def)

subsection \<open>Class names in plot_result\<close>

text \<open>
  The entry at position \<open>k\<close> of \<^verbatim>\<open>class_name\<close> has the decimal rendering of \<open>k\<close> as its
  key, so for \<open>k\<close> from 1 to 20 the lookup of that rendering finds the name stored there.
\<close>

lemma class_name_entry:
  assumes "1 \<le> k" "k \<le> 20"
  shows "fst (class_name ! nat k) = str_int k
       \<and> map_of class_name (str_int k) = Some (snd (class_name ! nat k))"
proof -
  from assms have "k = 1 \<or> k = 2 \<or> k = 3 \<or> k = 4 \<or> k = 5 \<or> k = 6 \<or> k = 7 \<or> k = 8
      \<or> k = 9 \<or> k = 10 \<or> k = 11 \<or> k = 12 \<or> k = 13 \<or> k = 14 \<or> k = 15 \<or> k = 16
      \<or> k = 17 \<or> k = 18 \<or> k = 19 \<or> k = 20"
    by arith
  then show ?thesis
    by (elim disjE) (simp_all add: class_name_def str_int_def str_nat_two)
qed

lemma add_int64_in_range:
  assumes "- (2 ^ 63) \<le> a + b" "a + b < 2 ^ 63"
  shows "add_int64 a b = a + b"
proof -
  have "0 \<le> a + b + 2 ^ 63" "a + b + 2 ^ 63 < (2 ^ 64 :: int)"
    using assms by simp_all
  then have "(a + b + 2 ^ 63) mod 2 ^ 64 = a + b + 2 ^ 63"
    by (rule mod_pos_pos_trivial)
  then show ?thesis by (simp add: add_int64_def wrap_int64_def)
qed

lemma add_one_int64:
  assumes "0 \<le> l" "l < 2 ^ 63 - 1"
  shows "add_int64 l 1 = l + 1"
  using assms by (intro add_int64_in_range) simp_all

lemma add_int64_max: "add_int64 9223372036854775807 1 = - 9223372036854775808"
  by (simp add: add_int64_def wrap_int64_def)

lemma minus_key_missing: "map_of class_name (CHR ''-'' # s) = None"
  by (simp add: class_name_def)

lemma clamp_range:
  assumes "0 \<le> l"
  shows "1 \<le> clamp_max (l + 1) 20" "clamp_max (l + 1) 20 \<le> 20"
  using assms by (simp_all add: clamp_max_def)

lemma label_loop_total:
  assumes "list_all (\<lambda>l. 0 \<le> l \<and> l < 2 ^ 63 - 1) rest"
  shows "label_loop class_name seen rest acc =
           (seen @ map (\<lambda>l. clamp_max (l + 1) 20) rest,
            Inr (acc @ map (\<lambda>l. snd (class_name ! nat (clamp_max (l + 1) 20))) rest))"
  using assms
proof (induction rest arbitrary: seen acc)
  case Nil
  then show ?case by simp
next
  case (Cons l rest)
  then have l: "0 \<le> l" "l < 2 ^ 63 - 1"
    and r: "list_all (\<lambda>l. 0 \<le> l \<and> l < 2 ^ 63 - 1) rest" by simp_all
  have a: "add_int64 l 1 = l + 1" using l by (rule add_one_int64)
  have nm: "map_of class_name (str_int (clamp_max (l + 1) 20)) =
      Some (snd (class_name ! nat (clamp_max (l + 1) 20)))"
    using class_name_entry [OF clamp_range [OF l(1)]] by simp
  show ?case
    using nm Cons.IH [OF r] by (simp add: Let_def a)
qed

text \<open>
  C10 as stated fails at the largest 64-bit integer: the label is nonnegative, the in-place
  increment wraps around to the smallest integer, the clamp leaves it, and its rendering,
  which starts with a minus sign, is no key of \<^verbatim>\<open>class_name\<close>: \<^verbatim>\<open>KeyError\<close>.
\<close>

theorem label_at_int64_max_raises:
  "(0 :: int) \<le> 9223372036854775807
   \<and> plot_labels class_name False [] [9223372036854775807] =
       ([- 9223372036854775808], Inl (KeyError (CHR ''-'' # str_nat 9223372036854775808)))"
  by (simp add: plot_labels_def add_int64_max clamp_max_def str_int_def minus_key_missing
      del: str_nat.simps)

text \<open>
  C10, as amended. In \<^verbatim>\<open>plot_result\<close> every class index that is nonnegative and below
  the largest 64-bit integer is raised by one, without wrapping, and clamped to at most 20
  before the lookup, so the key is the rendering of a number from 1 to 20, which is the key
  of the dictionary's entry at that position, and the lookup in \<^verbatim>\<open>class_name\<close> finds the
  name stored there: no \<^verbatim>\<open>KeyError\<close>. Without \<^verbatim>\<open>prob_true\<close> the caller's label
  tensor comes back with every entry raised and clamped; with \<^verbatim>\<open>prob_true\<close> it comes
  back as it was.
\<close>

theorem plot_result_lookup_succeeds:
  "(\<forall>l. 0 \<le> l \<and> l < 2 ^ 63 - 1 \<longrightarrow>
      add_int64 l 1 = l + 1
      \<and> 1 \<le> clamp_max (add_int64 l 1) 20 \<and> clamp_max (add_int64 l 1) 20 \<le> 20
      \<and> fst (class_name ! nat (clamp_max (add_int64 l 1) 20)) =
          str_int (clamp_max (add_int64 l 1) 20)
      \<and> map_of class_name (str_int (clamp_max (add_int64 l 1) 20)) =
          Some (snd (class_name ! nat (clamp_max (add_int64 l 1) 20))))
   \<and> (list_all (\<lambda>l. 0 \<le> l \<and> l < 2 ^ 63 - 1) target_label \<longrightarrow>
        plot_labels class_name False pred_cls target_label =
          (map (\<lambda>l. clamp_max (l + 1) 20) target_label,
           Inr (map (\<lambda>l. snd (class_name ! nat (clamp_max (l + 1) 20))) target_label)))
   \<and> (list_all (\<lambda>l. 0 \<le> l \<and> l < 2 ^ 63 - 1) pred_cls \<longrightarrow>
        plot_labels class_name True pred_cls target_label =
          (target_label,
           Inr (map (\<lambda>l. snd (class_name ! nat (clamp_max (l + 1) 20))) pred_cls)))"
proof (intro conjI allI impI)
  fix l :: int
  assume "0 \<le> l \<and> l < 2 ^ 63 - 1"
  then have l: "0 \<le> l" "l < 2 ^ 63 - 1" by simp_all
  show a: "add_int64 l 1 = l + 1" using l by (rule add_one_int64)
  show "1 \<le> clamp_max (add_int64 l 1) 20" "clamp_max (add_int64 l 1) 20 \<le> 20"
    unfolding a using clamp_range [OF l(1)] by simp_all
  show "fst (class_name ! nat (clamp_max (add_int64 l 1) 20)) =
          str_int (clamp_max (add_int64 l 1) 20)"
    unfolding a using class_name_entry [OF clamp_range [OF l(1)]] by simp
  show "map_of class_name (str_int (clamp_max (add_int64 l 1) 20)) =
          Some (snd (class_name ! nat (clamp_max (add_int64 l 1) 20)))"
    unfolding a using class_name_entry [OF clamp_range [OF l(1)]] by simp
next
  assume "list_all (\<lambda>l. 0 \<le> l \<and> l < 2 ^ 63 - 1) target_label"
  from label_loop_total [OF this, of "[]" "[]"]
  show "plot_labels class_name False pred_cls target_label =
          (map (\<lambda>l. clamp_max (l + 1) 20) target_label,
           Inr (map (\<lambda>l. snd (class_name ! nat (clamp_max (l + 1) 20))) target_label))"
    by (simp add: plot_labels_def)
next
  assume "list_all (\<lambda>l. 0 \<le> l \<and> l < 2 ^ 63 - 1) pred_cls"
  from label_loop_total [OF this, of "[]" "[]"]
  show "plot_labels class_name True pred_cls target_label =
          (target_label,
           Inr (map (\<lambda>l. snd (class_name ! nat (clamp_max (l + 1) 20))) pred_cls))"
    by (simp add: plot_labels_def)
qed

theorem plot_result_lookup_succeeds_witness:
  "list_all (\<lambda>l. 0 \<le> l \<and> l < 2 ^ 63 - 1) [0, 14, 19, 25 :: int]
   \<and> list_all (\<lambda>l. 0 \<le> l \<and> l < 2 ^ 63 - 1) [3 :: int]
   \<and> plot_labels class_name False [3] [0, 14, 19, 25] =
        ([1, 15, 20, 20], Inr [''aeroplane'', ''person'', ''tvmonitor'', ''tvmonitor''])
   \<and> plot_labels class_name True [3] [0, 14, 19, 25] = ([0, 14, 19, 25], Inr [''boat''])
   \<and> map_of class_name (str_int (clamp_max (add_int64 25 1) 20)) = Some ''tvmonitor''"
proof -
  note t = plot_result_lookup_succeeds [of "[0, 14, 19, 25]" "[3]"]
  have a: "list_all (\<lambda>l. 0 \<le> l \<and> l < 2 ^ 63 - 1) [0, 14, 19, 25 :: int]" by simp
  have b: "list_all (\<lambda>l. 0 \<le> l \<and> l < 2 ^ 63 - 1) [3 :: int]" by simp
  have m: "map (\<lambda>l. clamp_max (l + 1) 20) [0, 14, 19, 25] = [1, 15, 20, 20]"
    by (simp add: clamp_max_def)
  have n: "map (\<lambda>l. snd (class_name ! nat (clamp_max (l + 1) 20))) [0, 14, 19, 25] =
      [''aeroplane'', ''person'', ''tvmonitor'', ''tvmonitor'']"
    by (simp add: clamp_max_def class_name_def)
  have n': "map (\<lambda>l. snd (class_name ! nat (clamp_max (l + 1) 20))) [3] = [''boat'']"
    by (simp add: clamp_max_def class_name_def)
  have c: "plot_labels class_name False [3] [0, 14, 19, 25] =
        ([1, 15, 20, 20], Inr [''aeroplane'', ''person'', ''tvmonitor'', ''tvmonitor''])"
    using t a unfolding m n by blast
  have d: "plot_labels class_name True [3] [0, 14, 19, 25] = ([0, 14, 19, 25], Inr [''boat''])"
    using t b unfolding n' by blast
  have r: "(0::int) \<le> 25 \<and> (25::int) < 2 ^ 63 - 1" by simp
  with t have x: "add_int64 25 1 = 25 + 1"
    and y: "map_of class_name (str_int (clamp_max (add_int64 25 1) 20)) =
      Some (snd (class_name ! nat (clamp_max (add_int64 25 1) 20)))"
    by blast+
  have "snd (class_name ! nat (clamp_max (add_int64 25 1) 20)) = ''tvmonitor''"
    unfolding x by (simp add: clamp_max_def class_name_def)
  with y have e: "map_of class_name (str_int (clamp_max (add_int64 25 1) 20)) = Some ''tvmonitor''"
    by simp
  from a b c d e show ?thesis by blast
qed

subsection \<open>train_one_epoch\<close>

lemma forward_events_only:
  "e \<in> set (forward_events swav b) \<Longrightarrow> e = ModelForward \<or> e = CriterionCall \<or> (\<exists>i. e = SwavForward i)"
  by (auto simp: forward_events_def split: if_splits)











lemma train_loop_append:
  "train_loop ops mo wd swav mn (xs @ ys) meters =
     (case train_loop ops mo wd swav mn xs meters of
        (ev, Inl s) \<Rightarrow> (ev, Inl s)
      | (ev, Inr m') \<Rightarrow> (case train_loop ops mo wd swav mn ys m' of (ev', r) \<Rightarrow> (ev @ ev', r)))"
  by (induction xs arbitrary: meters) (auto split: prod.splits sum.splits)

lemma train_iteration_exit_only_nonfinite:
  assumes "snd (train_iteration ops mo wd swav mn b meters) = Inl (Exited n)"
  shows "n = 1 \<and> (\<exists>v. losses_reduced_scaled ops wd b = Tensor v \<and> \<not> isfinite v)"
  using assms
  by (simp add: train_iteration_def Let_def split: pynum.splits option.splits if_splits)

lemma train_loop_exit_only_nonfinite:
  assumes "snd (train_loop ops mo wd swav mn dl meters) = Inl (Exited n)"
  shows "n = 1 \<and> (\<exists>b \<in> set dl. \<exists>v. losses_reduced_scaled ops wd b = Tensor v \<and> \<not> isfinite v)"
  using assms
proof (induction dl arbitrary: meters)
  case Nil
  then show ?case by simp
next
  case (Cons b bs)
  show ?case
  proof (cases "snd (train_iteration ops mo wd swav mn b meters)")
    case (Inl s)
    with Cons.prems have "snd (train_iteration ops mo wd swav mn b meters) = Inl (Exited n)"
      by (auto split: prod.splits)
    from train_iteration_exit_only_nonfinite [OF this] show ?thesis by auto
  next
    case (Inr m1)
    with Cons.prems have "snd (train_loop ops mo wd swav mn bs m1) = Inl (Exited n)"
      by (auto split: prod.splits)
    from Cons.IH [OF this] show ?thesis by auto
  qed
qed

lemma losses_finite_batch:
  "losses_reduced_scaled exact_ops sample_weights finite_batch = Tensor (Fin 2)"
  "losses exact_ops sample_weights finite_batch = Tensor (Fin 2)"
  by (simp_all add: losses_reduced_scaled_def losses_def exact_ops_def sample_weights_def
        finite_batch_def py_sum_def)

lemma losses_nan_batch:
  "losses_reduced_scaled exact_ops sample_weights nan_batch = Tensor NaN"
  by (simp add: losses_reduced_scaled_def exact_ops_def sample_weights_def
        nan_batch_def py_sum_def)



lemma train_iteration_nonfinite:
  assumes "losses_reduced_scaled ops wd b = Tensor v" "\<not> isfinite v"
  shows "train_iteration ops mo wd swav mn b meters =
    (forward_events swav b @ [ReduceDict, PrintLossStop v, PrintDict (loss_dict_reduced b), SysExit 1],
     Inl (Exited 1))"
  using assms by (simp add: train_iteration_def)

lemma train_iteration_finite_prefix:
  assumes "losses_reduced_scaled ops wd b = Tensor v" "isfinite v"
  shows "\<exists>rest. fst (train_iteration ops mo wd swav mn b meters) =
            forward_events swav b @ [ReduceDict, ZeroGrad] @ rest"
  using assms by (simp add: train_iteration_def Let_def split: pynum.splits option.splits)

lemma train_iteration_events_finite:
  assumes "losses_reduced_scaled ops wd b = Tensor v" "isfinite v"
  shows "set (fst (train_iteration ops mo wd swav mn b meters)) \<subseteq>
     set (forward_events swav b) \<union>
       {ReduceDict, ZeroGrad, Backward, grad_norm_event mn, OptimizerStep, PrefetcherNext}"
  using assms
  by (simp add: train_iteration_def Let_def split: pynum.splits option.splits) blast

lemma sysexit_not_in_finite:
  assumes "losses_reduced_scaled ops wd b = Tensor v" "isfinite v"
  shows "SysExit n \<notin> set (fst (train_iteration ops mo wd swav mn b meters))"
proof
  assume "SysExit n \<in> set (fst (train_iteration ops mo wd swav mn b meters))"
  with train_iteration_events_finite [OF assms, of mo swav mn meters]
  have "SysExit n \<in> set (forward_events swav b) \<union>
       {ReduceDict, ZeroGrad, Backward, grad_norm_event mn, OptimizerStep, PrefetcherNext}"
    by blast
  then show False
    using forward_events_only [of "SysExit n" swav b]
    by (auto simp: grad_norm_event_def split: if_splits)
qed

lemma no_step_in_nonfinite:
  "ZeroGrad \<notin> set (forward_events swav b @ [ReduceDict, PrintLossStop v, PrintDict d, SysExit 1])"
  "Backward \<notin> set (forward_events swav b @ [ReduceDict, PrintLossStop v, PrintDict d, SysExit 1])"
  "OptimizerStep \<notin> set (forward_events swav b @ [ReduceDict, PrintLossStop v, PrintDict d, SysExit 1])"
  using forward_events_only [of ZeroGrad swav b] forward_events_only [of Backward swav b]
    forward_events_only [of OptimizerStep swav b]
  by auto

lemma train_one_epoch_exit_only_nonfinite:
  assumes "snd (train_one_epoch ops mo wd swav mn dl) = Inl (Exited n)"
  shows "n = 1 \<and> (\<exists>b \<in> set dl. \<exists>v. losses_reduced_scaled ops wd b = Tensor v \<and> \<not> isfinite v)"
proof -
  have "snd (train_loop ops mo wd swav mn dl (initial_meters mo)) = Inl (Exited n)"
    using assms by (auto simp: train_one_epoch_def split: prod.splits sum.splits)
  then show ?thesis by (rule train_loop_exit_only_nonfinite)
qed

lemma train_one_epoch_exits_at:
  assumes pre: "train_loop ops mo wd swav mn pre (initial_meters mo) = (ev, Inr meters)"
    and v: "losses_reduced_scaled ops wd b = Tensor v" "\<not> isfinite v"
  shows "train_one_epoch ops mo wd swav mn (pre @ b # post) =
     ([ModelTrain, CriterionTrain, PrefetcherNew, PrefetcherNext] @ ev @ forward_events swav b
        @ [ReduceDict, PrintLossStop v, PrintDict (loss_dict_reduced b), SysExit 1],
      Inl (Exited 1))"
  using pre train_iteration_nonfinite [OF v, of mo swav mn meters]
  by (simp add: train_one_epoch_def train_loop_append)

text \<open>
  C1. For a batch whose reduced, scaled loss is a tensor: when the value is not finite the
  pass prints the loss and the reduced dictionary and leaves the process with status 1,
  with no gradient zeroing, backward pass or optimizer step in the pass, and the epoch ends
  there whatever batches follow; when the value is finite the pass does not exit and goes
  on to zero the gradients. The epoch exits only with status 1 and only when some batch has
  a loss that is not finite.
\<close>

theorem nonfinite_loss_exits:
  assumes "losses_reduced_scaled ops weight_dict b = Tensor loss_value"
  shows
   "(\<not> isfinite loss_value \<longrightarrow>
       train_iteration ops mo weight_dict swav max_norm b meters =
         (forward_events swav b
            @ [ReduceDict, PrintLossStop loss_value, PrintDict (loss_dict_reduced b), SysExit 1],
          Inl (Exited 1))
       \<and> ZeroGrad \<notin> set (fst (train_iteration ops mo weight_dict swav max_norm b meters))
       \<and> Backward \<notin> set (fst (train_iteration ops mo weight_dict swav max_norm b meters))
       \<and> OptimizerStep \<notin> set (fst (train_iteration ops mo weight_dict swav max_norm b meters))
       \<and> (\<forall>ev meters' pre post.
             train_loop ops mo weight_dict swav max_norm pre (initial_meters mo) = (ev, Inr meters')
             \<longrightarrow> train_one_epoch ops mo weight_dict swav max_norm (pre @ b # post) =
                   ([ModelTrain, CriterionTrain, PrefetcherNew, PrefetcherNext] @ ev
                      @ forward_events swav b
                      @ [ReduceDict, PrintLossStop loss_value, PrintDict (loss_dict_reduced b),
                         SysExit 1],
                    Inl (Exited 1))))
    \<and> (isfinite loss_value \<longrightarrow>
       (\<forall>n. SysExit n \<notin> set (fst (train_iteration ops mo weight_dict swav max_norm b meters))
            \<and> snd (train_iteration ops mo weight_dict swav max_norm b meters) \<noteq> Inl (Exited n))
       \<and> (\<exists>rest. fst (train_iteration ops mo weight_dict swav max_norm b meters) =
             forward_events swav b @ [ReduceDict, ZeroGrad] @ rest))
    \<and> (\<forall>data_loader n.
          snd (train_one_epoch ops mo weight_dict swav max_norm data_loader) = Inl (Exited n)
          \<longrightarrow> n = 1 \<and> (\<exists>b' \<in> set data_loader. \<exists>v.
                 losses_reduced_scaled ops weight_dict b' = Tensor v \<and> \<not> isfinite v))"
proof (intro conjI impI allI)
  assume nf: "\<not> isfinite loss_value"
  show it: "train_iteration ops mo weight_dict swav max_norm b meters =
         (forward_events swav b
            @ [ReduceDict, PrintLossStop loss_value, PrintDict (loss_dict_reduced b), SysExit 1],
          Inl (Exited 1))"
    using assms nf by (rule train_iteration_nonfinite)
  show "ZeroGrad \<notin> set (fst (train_iteration ops mo weight_dict swav max_norm b meters))"
    "Backward \<notin> set (fst (train_iteration ops mo weight_dict swav max_norm b meters))"
    "OptimizerStep \<notin> set (fst (train_iteration ops mo weight_dict swav max_norm b meters))"
    unfolding it fst_conv by (rule no_step_in_nonfinite)+
next
  fix ev meters' pre post
  assume "\<not> isfinite loss_value"
    and "train_loop ops mo weight_dict swav max_norm pre (initial_meters mo) = (ev, Inr meters')"
  then show "train_one_epoch ops mo weight_dict swav max_norm (pre @ b # post) =
                   ([ModelTrain, CriterionTrain, PrefetcherNew, PrefetcherNext] @ ev
                      @ forward_events swav b
                      @ [ReduceDict, PrintLossStop loss_value, PrintDict (loss_dict_reduced b),
                         SysExit 1],
                    Inl (Exited 1))"
    using train_one_epoch_exits_at [OF _ assms] by blast
next
  fix n
  assume f: "isfinite loss_value"
  show "SysExit n \<notin> set (fst (train_iteration ops mo weight_dict swav max_norm b meters))"
    using assms f by (rule sysexit_not_in_finite)
  show "snd (train_iteration ops mo weight_dict swav max_norm b meters) \<noteq> Inl (Exited n)"
    using train_iteration_exit_only_nonfinite [of ops mo weight_dict swav max_norm b meters n]
      assms f by auto
next
  assume f: "isfinite loss_value"
  show "\<exists>rest. fst (train_iteration ops mo weight_dict swav max_norm b meters) =
             forward_events swav b @ [ReduceDict, ZeroGrad] @ rest"
    using assms f by (rule train_iteration_finite_prefix)
next
  fix data_loader n
  assume "snd (train_one_epoch ops mo weight_dict swav max_norm data_loader) = Inl (Exited n)"
  then show "n = 1" and "\<exists>b' \<in> set data_loader. \<exists>v.
                 losses_reduced_scaled ops weight_dict b' = Tensor v \<and> \<not> isfinite v"
    using train_one_epoch_exit_only_nonfinite by blast+
qed


theorem nonfinite_loss_exits_witness:
  "losses_reduced_scaled exact_ops sample_weights nan_batch = Tensor NaN
   \<and> \<not> isfinite NaN
   \<and> train_iteration exact_ops list_meter sample_weights False (Fin 0) nan_batch [] =
        ([ModelForward, CriterionCall, ReduceDict, PrintLossStop NaN,
          PrintDict [(''loss_ce'', NaN), (''class_error'', Fin 50)], SysExit 1],
         Inl (Exited 1))
   \<and> train_one_epoch exact_ops list_meter sample_weights False (Fin 0) [nan_batch, finite_batch] =
        ([ModelTrain, CriterionTrain, PrefetcherNew, PrefetcherNext,
          ModelForward, CriterionCall, ReduceDict, PrintLossStop NaN,
          PrintDict [(''loss_ce'', NaN), (''class_error'', Fin 50)], SysExit 1],
         Inl (Exited 1))
   \<and> (\<exists>b'. b' \<in> set [nan_batch, finite_batch]
          \<and> (\<exists>v. losses_reduced_scaled exact_ops sample_weights b' = Tensor v \<and> \<not> isfinite v))
   \<and> losses_reduced_scaled exact_ops sample_weights finite_batch = Tensor (Fin 2)
   \<and> isfinite (Fin 2)
   \<and> (\<exists>rest. fst (train_iteration exact_ops list_meter sample_weights False (Fin 0)
                     finite_batch []) =
          [ModelForward, CriterionCall, ReduceDict, ZeroGrad] @ rest)"
proof -
  note nan = nonfinite_loss_exits [OF losses_nan_batch,
      of list_meter False "Fin 0" "[]"]
  note fin = nonfinite_loss_exits [OF losses_finite_batch(1),
      of list_meter False "Fin 0" "[]"]
  have nf: "\<not> isfinite NaN" and f: "isfinite (Fin 2)" by simp_all
  have fw: "forward_events False nan_batch = [ModelForward, CriterionCall]"
    "forward_events False finite_batch = [ModelForward, CriterionCall]"
    by (simp_all add: forward_events_def)
  have rd: "loss_dict_reduced nan_batch = [(''loss_ce'', NaN), (''class_error'', Fin 50)]"
    by (simp add: nan_batch_def)
  have a: "train_iteration exact_ops list_meter sample_weights False (Fin 0) nan_batch [] =
        ([ModelForward, CriterionCall, ReduceDict, PrintLossStop NaN,
          PrintDict [(''loss_ce'', NaN), (''class_error'', Fin 50)], SysExit 1],
         Inl (Exited 1))"
    using nan nf unfolding fw rd by simp
  have l0: "train_loop exact_ops list_meter sample_weights False (Fin 0) []
      (initial_meters list_meter) = ([], Inr (initial_meters list_meter))"
    by simp
  have b: "train_one_epoch exact_ops list_meter sample_weights False (Fin 0)
        ([] @ nan_batch # [finite_batch]) =
        ([ModelTrain, CriterionTrain, PrefetcherNew, PrefetcherNext] @ []
           @ forward_events False nan_batch
           @ [ReduceDict, PrintLossStop NaN, PrintDict (loss_dict_reduced nan_batch), SysExit 1],
         Inl (Exited 1))"
    using nan nf l0 by blast
  then have b': "train_one_epoch exact_ops list_meter sample_weights False (Fin 0)
        [nan_batch, finite_batch] =
        ([ModelTrain, CriterionTrain, PrefetcherNew, PrefetcherNext,
          ModelForward, CriterionCall, ReduceDict, PrintLossStop NaN,
          PrintDict [(''loss_ce'', NaN), (''class_error'', Fin 50)], SysExit 1],
         Inl (Exited 1))"
    unfolding fw rd by simp
  then have "snd (train_one_epoch exact_ops list_meter sample_weights False (Fin 0)
        [nan_batch, finite_batch]) = Inl (Exited 1)"
    by simp
  with nan have c: "\<exists>b'. b' \<in> set [nan_batch, finite_batch]
          \<and> (\<exists>v. losses_reduced_scaled exact_ops sample_weights b' = Tensor v \<and> \<not> isfinite v)"
    by blast
  have d: "\<exists>rest. fst (train_iteration exact_ops list_meter sample_weights False (Fin 0)
                     finite_batch []) =
          [ModelForward, CriterionCall, ReduceDict, ZeroGrad] @ rest"
    using fin f unfolding fw by simp
  from a b' c d nf f losses_nan_batch losses_finite_batch(1) show ?thesis by blast
qed



















subsection \<open>The ranking by class-1 probability\<close>
















lemma sample_orders:
  "class1_order sample_batch = [1, 0]"
  "class1_order matched_batch = [0]"
  "class1_order background_batch = [0]"
  by (simp_all add: class1_order_def argsort_descending_def sample_batch_def matched_batch_def
      background_batch_def confident_query_def background_query_def)

subsection \<open>evaluate\<close>

lemma run_steps_ok_iff: "snd (run_steps steps) = None \<longleftrightarrow> list_all (\<lambda>s. snd s = None) steps"
  by (induction steps rule: run_steps.induct) (auto split: prod.splits)


lemma run_steps_events_subset:
  "set (fst (run_steps steps)) \<subseteq> set (concat (map fst steps))"
  by (induction steps rule: run_steps.induct) (auto split: prod.splits)

lemma stats_unbound: "load_name evaluate_locals engine_globals ''stats'' = Inl (NameError ''stats'')"
  by (simp add: load_name_def evaluate_locals_def engine_globals_def)

text \<open>
  C2. \<^verbatim>\<open>evaluate\<close> never returns a value. When the loop over the data loader runs to
  its end, the \<^verbatim>\<open>return\<close> raises \<^verbatim>\<open>NameError\<close> for \<^verbatim>\<open>stats\<close>, a name that
  neither the function nor the module binds; when the loop raises, that exception leaves
  the function.
\<close>

theorem evaluate_raises_name_error:
  "snd (evaluate np ops weight_dict cfg output_dir data_loader) =
     Inl (Raised
       (case snd (batch_loop (evaluate_batch np ops weight_dict cfg ''vis'') data_loader) of
          None \<Rightarrow> NameError ''stats''
        | Some e \<Rightarrow> e))
   \<and> (\<forall>stats ce. snd (evaluate np ops weight_dict cfg output_dir data_loader) \<noteq> Inr (stats, ce))
   \<and> ''stats'' \<notin> set evaluate_locals \<and> ''stats'' \<notin> set engine_globals"
proof (intro conjI)
  show e: "snd (evaluate np ops weight_dict cfg output_dir data_loader) =
     Inl (Raised
       (case snd (batch_loop (evaluate_batch np ops weight_dict cfg ''vis'') data_loader) of
          None \<Rightarrow> NameError ''stats''
        | Some e \<Rightarrow> e))"
  proof (cases "batch_loop (evaluate_batch np ops weight_dict cfg ''vis'') data_loader")
    case (Pair ev r)
    then show ?thesis
      by (cases r) (simp_all add: evaluate_def Let_def stats_unbound)
  qed
  show "\<forall>stats ce. snd (evaluate np ops weight_dict cfg output_dir data_loader) \<noteq> Inr (stats, ce)"
    unfolding e by simp
  show "''stats'' \<notin> set evaluate_locals"
    by (simp add: evaluate_locals_def)
  show "''stats'' \<notin> set engine_globals"
    by (simp add: engine_globals_def)
qed

lemma evaluate_batch_background:
  "snd (evaluate_batch np ops sample_weights voc_config ''vis'' background_batch) = None"
  unfolding evaluate_batch_def sample_orders
  by (simp add: run_steps_ok_iff background_batch_def one_object_def select_top_def
      load_detections_def save_detections_def log_losses_def postprocess_bbox_def
      postprocess_segm_def panoptic_update_def voc_config_def sample_weights_def
      unscaled_dict_def)

text \<open>A run whose loop runs to its end: one batch, and the \<^verbatim>\<open>NameError\<close> after it.\<close>

theorem evaluate_raises_name_error_witness:
  "snd (batch_loop (evaluate_batch exact_np exact_ops sample_weights voc_config ''vis'')
          [background_batch]) = None
   \<and> snd (evaluate exact_np exact_ops sample_weights voc_config ''out'' [background_batch]) =
       Inl (Raised (NameError ''stats''))"
proof -
  have l: "snd (batch_loop (evaluate_batch exact_np exact_ops sample_weights voc_config ''vis'')
      [background_batch]) = None"
    by (simp add: run_steps_ok_iff evaluate_batch_background)
  with evaluate_raises_name_error
    [of exact_np exact_ops sample_weights voc_config "''out''" "[background_batch]"]
  show ?thesis by simp
qed

lemma class_ap_events: "e \<in> set (fst (class_ap np name cp)) \<Longrightarrow> is_own_metric e \<and> \<not> is_print_ap e"
  by (auto simp: class_ap_def Let_def split: if_splits)

lemma measure_ap_unfold:
  "(measure_ap np name kept gt :: ('b, 'r) eval_event list) =
     concat (map (\<lambda>ind.
        fst (class_ap np name (map fst (filter (\<lambda>(v, i). int i = gt ! ind) kept)))
        @ [PrintAP (gt ! ind)
             (snd (class_ap np name (map fst (filter (\<lambda>(v, i). int i = gt ! ind) kept))
                    :: ('b, 'r) eval_event list \<times> apval))])
       [0..<length (remdups gt)])"
  by (simp add: measure_ap_def Let_def case_prod_beta)

lemma measure_ap_events:
  assumes "e \<in> set (measure_ap np name kept gt)"
  shows "is_own_metric e"
  using assms unfolding measure_ap_unfold
  by (auto dest: class_ap_events [of e np name])


lemma vis_steps:
  "load_detections ''vis'' ts = ([], None)" "save_detections ''vis'' ts = ([], None)"
  by (simp_all add: load_detections_def save_detections_def)

lemma run_steps_all:
  assumes "list_all (\<lambda>s. list_all P (fst s)) steps"
  shows "list_all P (fst (run_steps steps))"
  using assms
  by (induction steps rule: run_steps.induct) (auto split: prod.splits)

lemma measure_step_no_io:
  "list_all (\<lambda>e. \<not> is_detection_io e)
     (fst (case select_top k order rows of
             Inl e \<Rightarrow> ([], Some e)
           | Inr rs \<Rightarrow> (Gca # measure_ap np name (kept_scores rs) gt, None)))"
proof (cases "select_top k order rows")
  case (Inl e)
  then show ?thesis by simp
next
  case (Inr rs)
  have "\<not> is_detection_io e" if "e \<in> set (measure_ap np name (kept_scores rs) gt)" for e
    using measure_ap_events [OF that] by (cases e) simp_all
  then show ?thesis using Inr by (auto simp: list_all_iff)
qed

lemma config_steps_no_io:
  "list_all (\<lambda>e. \<not> is_detection_io e) (fst (log_losses ops wd b))"
  "list_all (\<lambda>e. \<not> is_detection_io e) (fst (postprocess_bbox cfg))"
  "list_all (\<lambda>e. \<not> is_detection_io e) (fst (postprocess_segm cfg))"
  "list_all (\<lambda>e. \<not> is_detection_io e) (fst (panoptic_update cfg ts))"
  by (simp_all add: log_losses_def postprocess_bbox_def postprocess_segm_def
      panoptic_update_def Let_def)

lemma evaluate_batch_vis_no_io:
  "list_all (\<lambda>e. \<not> is_detection_io e) (fst (evaluate_batch np ops wd cfg ''vis'' b))"
proof (cases "targets b")
  case Nil
  then show ?thesis by (simp add: evaluate_batch_def)
next
  case (Cons t0 ts)
  show ?thesis
    unfolding evaluate_batch_def Cons list.case Let_def
    by (rule run_steps_all) (simp add: vis_steps measure_step_no_io config_steps_no_io)
qed


lemma batch_loop_all:
  assumes "\<And>b. list_all P (fst (body b))"
  shows "list_all P (fst (batch_loop body dl))"
proof (induction dl)
  case Nil
  then show ?case by simp
next
  case (Cons b bs)
  have "list_all (\<lambda>s. list_all P (fst s)) [body b, batch_loop body bs]"
    using assms Cons by simp
  from run_steps_all [OF this] show ?case by simp
qed

lemma evaluate_no_io:
  "filter is_detection_io (fst (evaluate np ops wd cfg od dl)) = []"
proof -
  have l: "list_all (\<lambda>e. \<not> is_detection_io e)
      (fst (batch_loop (evaluate_batch np ops wd cfg ''vis'') dl))"
    by (rule batch_loop_all) (rule evaluate_batch_vis_no_io)
  obtain ev r where p: "batch_loop (evaluate_batch np ops wd cfg ''vis'') dl = (ev, r)"
    by (cases "batch_loop (evaluate_batch np ops wd cfg ''vis'') dl")
  with l have ev: "filter is_detection_io ev = []"
    by (simp add: filter_empty_conv list_all_iff)
  show ?thesis
    using p ev
    by (cases r; cases "coco_evaluator cfg")
       (simp_all add: evaluate_def Let_def stats_unbound)
qed

lemma paths:
  "os_path_join ''vis'' (img_name 7) = ''vis/img_7.jpg''"
  "os_path_join ''vis'' (img_name 42) = ''vis/img_42.jpg''"
  "os_path_join ''run_savedet_loaddet'' (img_name 7) = ''run_savedet_loaddet/img_7.jpg''"
  "os_path_join ''run_savedet_loaddet'' (str_int 7 @ ''.pt'') = ''run_savedet_loaddet/7.pt''"
  by (simp_all add: os_path_join_def img_name_def str_int_def str_nat_two suffix_to_prefix)

lemma contains_run:
  "str_contains ''run_savedet_loaddet'' ''savedet''"
  "str_contains ''run_savedet_loaddet'' ''loaddet''"
  by simp_all

lemma background_rows:
  "select_top 10 (class1_order background_batch) (queries background_batch) = Inr [background_query]"
  "targets background_batch = [one_object]"
  "kept_scores [background_query] = []"
  unfolding sample_orders
  by (simp_all add: select_top_def background_batch_def kept_scores_def background_query_def)

lemma measure_ap_no_scores:
  "measure_ap np name [] [7] = [PrintAP 7 (ApInt 0)]"
  by (simp add: measure_ap_def class_ap_def)

lemma background_steps:
  "log_losses exact_ops sample_weights background_batch = ([EvalCriterion, EvalReduceDict], None)"
  "postprocess_bbox voc_config = ([Postprocess ''bbox''], None)"
  "postprocess_segm voc_config = ([], None)"
  "panoptic_update voc_config ts = ([], None)"
  "res_dict [one_object] (results background_batch) = [(7, 100)]"
  by (simp_all add: log_losses_def postprocess_bbox_def postprocess_segm_def
      panoptic_update_def voc_config_def background_batch_def sample_weights_def
      unscaled_dict_def res_dict_def one_object_def)

lemma saved_and_loaded_elsewhere:
  "evaluate_batch exact_np exact_ops sample_weights voc_config ''run_savedet_loaddet''
          background_batch =
     ([TorchLoad ''7.pt'', CallModel, Gca, PrintAP 7 (ApInt 0), SetAspectEqual, SetAxisOff,
      Savefig ''run_savedet_loaddet/img_7.jpg'', Clf, EvalCriterion, EvalReduceDict,
      Postprocess ''bbox'', Makedirs ''run_savedet_loaddet'',
      TorchSave ''run_savedet_loaddet/7.pt'', EvaluatorUpdate [(7, 100)]], None)"
proof -
  have ld: "load_detections ''run_savedet_loaddet'' [one_object] = ([TorchLoad ''7.pt''], None)"
    unfolding load_detections_def using contains_run(2)
    by (simp add: one_object_def str_int_def del: str_contains.simps)
  have sd: "save_detections ''run_savedet_loaddet'' [one_object] =
      ([Makedirs ''run_savedet_loaddet'', TorchSave ''run_savedet_loaddet/7.pt''], None)"
    unfolding save_detections_def using contains_run(1) paths(4)
    by (simp add: one_object_def del: str_contains.simps)
  have o: "image_id one_object = 7" "labels one_object = [7]" by (simp_all add: one_object_def)
  show ?thesis
    unfolding evaluate_batch_def background_rows list.case Let_def sum.case
      background_steps ld sd o paths measure_ap_no_scores
    by simp
qed

text \<open>
  C5. The \<^verbatim>\<open>output_dir\<close> argument has no effect: \<^verbatim>\<open>evaluate\<close> and \<^verbatim>\<open>viz\<close> give the
  same trace and result for any two values of it, since both rebind the name to
  \<^verbatim>\<open>'vis'\<close> first. Neither \<^verbatim>\<open>'loaddet'\<close> nor \<^verbatim>\<open>'savedet'\<close> occurs in \<^verbatim>\<open>'vis'\<close>,
  so no run of \<^verbatim>\<open>evaluate\<close> loads or saves detections. The two branches are there: the
  loop body run with a directory name that contains both words loads and saves.
\<close>

theorem output_dir_has_no_effect:
  "evaluate np ops weight_dict cfg output_dir data_loader =
     evaluate np ops weight_dict cfg output_dir' data_loader
   \<and> viz output_dir viz_loader = viz output_dir' viz_loader
   \<and> \<not> str_contains ''vis'' ''loaddet''
   \<and> \<not> str_contains ''vis'' ''savedet''
   \<and> filter is_detection_io (fst (evaluate np ops weight_dict cfg output_dir data_loader)) = []
   \<and> filter is_detection_io
        (fst (evaluate_batch exact_np exact_ops sample_weights voc_config
                ''run_savedet_loaddet'' background_batch)) =
       [TorchLoad ''7.pt'', Makedirs ''run_savedet_loaddet'',
        TorchSave ''run_savedet_loaddet/7.pt'']"
proof (intro conjI)
  show "evaluate np ops weight_dict cfg output_dir data_loader =
     evaluate np ops weight_dict cfg output_dir' data_loader"
    by (simp add: evaluate_def)
  show "viz output_dir viz_loader = viz output_dir' viz_loader"
    by (simp add: viz_def)
  show "\<not> str_contains ''vis'' ''loaddet''" "\<not> str_contains ''vis'' ''savedet''"
    by simp_all
  show "filter is_detection_io (fst (evaluate np ops weight_dict cfg output_dir data_loader)) = []"
    by (rule evaluate_no_io)
  show "filter is_detection_io
        (fst (evaluate_batch exact_np exact_ops sample_weights voc_config
                ''run_savedet_loaddet'' background_batch)) =
       [TorchLoad ''7.pt'', Makedirs ''run_savedet_loaddet'',
        TorchSave ''run_savedet_loaddet/7.pt'']"
    unfolding saved_and_loaded_elsewhere by simp
qed













lemma img_names: "img_name 7 = ''img_7.jpg''" "img_name 42 = ''img_42.jpg''"
  by (simp_all add: img_name_def str_int_def str_nat_two)

lemma vis_paths:
  "os_path_join ''vis'' ''img_7.jpg'' = ''vis/img_7.jpg''"
  "os_path_join ''vis'' ''img_42.jpg'' = ''vis/img_42.jpg''"
  by (simp_all add: os_path_join_def suffix_to_prefix)




lemma sample_rows:
  "select_top 10 (class1_order sample_batch) (queries sample_batch) =
     Inr [confident_query, background_query]"
  "targets sample_batch = [three_objects]"
  "kept_scores [confident_query, background_query] = [(Fin (3 / 4), 7)]"
  unfolding sample_orders
  by (simp_all add: select_top_def sample_batch_def kept_scores_def confident_query_def
      background_query_def)

lemma measure_ap_sample:
  "measure_ap np ''img_42.jpg'' [(Fin (3 / 4), 7)] [5, 5, 7] =
     [PrintAP 5 (ApInt 0), PrintAP 5 (ApInt 0)]"
  by (simp add: measure_ap_def class_ap_def upt_rec)

lemma sample_steps:
  "log_losses exact_ops sample_weights sample_batch = ([EvalCriterion, EvalReduceDict], None)"
  "res_dict [three_objects] (results sample_batch) = [(42, 100)]"
  by (simp_all add: log_losses_def sample_batch_def sample_weights_def
      unscaled_dict_def res_dict_def three_objects_def)

lemma evaluate_batch_sample:
  "evaluate_batch np exact_ops sample_weights voc_config ''vis'' sample_batch =
     ([CallModel, Gca, PrintAP 5 (ApInt 0), PrintAP 5 (ApInt 0),
       SetAspectEqual, SetAxisOff, Savefig ''vis/img_42.jpg'', Clf, EvalCriterion,
       EvalReduceDict, Postprocess ''bbox'', EvaluatorUpdate [(42, 100)]], None)"
proof -
  have o: "image_id three_objects = 42" "labels three_objects = [5, 5, 7]"
    by (simp_all add: three_objects_def)
  show ?thesis
    unfolding evaluate_batch_def sample_rows list.case Let_def sum.case
      background_steps sample_steps vis_steps o img_names measure_ap_sample
    by (simp add: vis_paths)
qed

lemma voc_start:
  "\<not> str_contains (base_ds_type voc_config) ''COCO''"
  "filter (\<lambda>k. k \<in> set (postprocessors voc_config)) [''segm'', ''bbox''] = [''bbox'']"
  "''panoptic'' \<notin> set (postprocessors voc_config)"
  "''bbox'' \<in> set (postprocessors voc_config)"
  "''segm'' \<notin> set (postprocessors voc_config)"
  by (simp_all add: voc_config_def)



lemma evaluate_sample:
  "evaluate np exact_ops sample_weights voc_config output_dir [sample_batch] =
     ([ModelEval, CriterionEval, NewVocEvaluator [''bbox''], CallModel, Gca,
       PrintAP 5 (ApInt 0), PrintAP 5 (ApInt 0),
       SetAspectEqual, SetAxisOff, Savefig ''vis/img_42.jpg'', Clf, EvalCriterion,
       EvalReduceDict, Postprocess ''bbox'', EvaluatorUpdate [(42, 100)]],
      Inl (Raised (NameError ''stats'')))"
  by (simp add: evaluate_def evaluate_batch_sample stats_unbound coco_evaluator_def
      iou_types_def voc_start)




text \<open>
  C4, the failing input. The first image has labels 5, 5, 7, so two distinct classes, and
  the model has a confident row of class 7. The loop takes \<^verbatim>\<open>gt_cls[0]\<close> and
  \<^verbatim>\<open>gt_cls[1]\<close>: class 5 is reported twice, class 7 never.
\<close>

theorem evaluate_reports_first_labels:
  "remdups (labels three_objects) = [5, 7]
   \<and> kept_scores [confident_query, background_query] = [(Fin (3 / 4), 7)]
   \<and> filter is_print_ap
        (fst (evaluate exact_np exact_ops sample_weights voc_config ''out'' [sample_batch])) =
       [PrintAP 5 (ApInt 0), PrintAP 5 (ApInt 0)]"
  unfolding evaluate_sample by (simp add: three_objects_def sample_rows)

subsection \<open>viz\<close>

















end
